theory Spec2Isabelle
  imports Main "HOL-Library.Sublist"
begin

section \<open>The card store of \<^verbatim>\<open>src/stores/card.js\<close>\<close>

text \<open>
  The store is a Pinia store with six state fields, one getter (\<^verbatim>\<open>apiKey\<close>) and four
  asynchronous actions (\<^verbatim>\<open>select\<close>, \<^verbatim>\<open>getSet\<close>, \<^verbatim>\<open>getRarity\<close>, \<^verbatim>\<open>getType\<close>).
  Each action writes the store, calls \<^verbatim>\<open>apiClient.get\<close> once, and settles in a
  \<^verbatim>\<open>try/catch/finally\<close>. The embedding passes the store explicitly, takes the answer
  of the HTTP client as a parameter (a function from the request to either a thrown
  error or a response), and returns what a caller and an observer can see of one call.

  Strings are \<^typ>\<open>string\<close>, that is lists of 8-bit characters (the UTF-8 bytes of the
  JavaScript string). The only character the code inspects is the space U+0020, one
  byte in UTF-8 that occurs in no multi-byte sequence, so replacing it byte-wise and
  code-unit-wise agree.
\<close>

subsection \<open>JavaScript values\<close>

datatype js_value =
    JUndefined
  | JNull
  | JBool bool
  | JNum int
  | JStr string
  | JArr "js_value list"
  | JObj "(string \<times> js_value) list"

text \<open>Truthiness, as the operator \<^verbatim>\<open>||\<close> tests it.\<close>

fun truthy :: "js_value \<Rightarrow> bool" where
  "truthy JUndefined = False"
| "truthy JNull = False"
| "truthy (JBool b) = b"
| "truthy (JNum n) = (n \<noteq> 0)"
| "truthy (JStr s) = (s \<noteq> [])"
| "truthy (JArr xs) = True"
| "truthy (JObj kvs) = True"

text \<open>A default parameter value \<^verbatim>\<open>p = d\<close>: an omitted argument takes the default.\<close>

fun param_default :: "'a \<Rightarrow> 'a option \<Rightarrow> 'a" where
  "param_default d None = d"
| "param_default d (Some v) = v"

text \<open>
  \<^verbatim>\<open>${page}\<close> for a non-negative integer: its decimal digits (what JavaScript prints
  for every integer below \<open>10\<^sup>2\<^sup>1\<close>).
\<close>

definition digit :: "nat \<Rightarrow> char" where
  "digit d = ''0123456789'' ! d"

function toString :: "nat \<Rightarrow> string" where
  "toString n = (if n < 10 then [digit n] else toString (n div 10) @ [digit (n mod 10)])"
  by pat_completeness auto
termination
  by (relation "measure (\<lambda>n. n)") auto

declare toString.simps [simp del]

text \<open>
  \<^verbatim>\<open>String.prototype.replaceAll(pattern, replacement)\<close> with a string pattern: every
  occurrence, scanning from the left without overlap; an empty pattern matches between
  all characters and at both ends.
\<close>

function replaceAll :: "string \<Rightarrow> string \<Rightarrow> string \<Rightarrow> string" where
  "replaceAll pat rep s =
     (if pat = [] then rep @ concat (map (\<lambda>c. c # rep) s)
      else if s = [] then []
      else if take (length pat) s = pat then rep @ replaceAll pat rep (drop (length pat) s)
      else hd s # replaceAll pat rep (tl s))"
  by pat_completeness auto
termination
  by (relation "measure (\<lambda>(pat, rep, s). length s)") auto

declare replaceAll.simps [simp del]

text \<open>\<^verbatim>\<open>Array.prototype.join(separator)\<close> on an array of strings.\<close>

fun join :: "string \<Rightarrow> string list \<Rightarrow> string" where
  "join sep [] = []"
| "join sep [x] = x"
| "join sep (x # y # ys) = x @ sep @ join sep (y # ys)"

text \<open>
  The specification's ``value with spaces replaced by wildcard'', in its own words: the
  same string with \<open>*\<close> at the position of every space. It is what the theorems compare
  \<^verbatim>\<open>replaceAll(" ", "*")\<close> with.
\<close>

definition spaces_to_wildcards :: "string \<Rightarrow> string" where
  "spaces_to_wildcards s = map (\<lambda>c. if c = CHR '' '' then CHR ''*'' else c) s"

subsection \<open>The store state, the configuration and the HTTP client\<close>

text \<open>
  The state of lines 10--17. Field \<open>this_name s\<close> is \<^verbatim>\<open>this.name\<close> of the source, and
  so on: the prefix keeps the fields apart from the parameters of \<^verbatim>\<open>select\<close>, which
  have the same names.
\<close>

record state =
  this_cards :: "js_value list"
  this_isLoading :: bool
  this_name :: string
  this_set :: string
  this_rarity :: string
  this_type :: string

definition state_init :: state where
  "state_init =
     \<lparr>this_cards = [], this_isLoading = False, this_name = [], this_set = [],
      this_rarity = [], this_type = []\<rparr>"

text \<open>\<^verbatim>\<open>useRuntimeConfig().public\<close>, and the getter of lines 19--24.\<close>

record runtime_config =
  pokemonTcgApiKey :: js_value

definition apiKey :: "runtime_config \<Rightarrow> js_value" where
  "apiKey config = pokemonTcgApiKey config"

text \<open>
  The arguments of \<^verbatim>\<open>apiClient.get(url, {headers})\<close>, the response it resolves to and the
  error it rejects with. \<^verbatim>\<open>error.response\<close> is absent when no response arrived.
\<close>

definition baseURL :: string where
  "baseURL = ''https://api.pokemontcg.io/v2''"

record request =
  url :: string
  headers :: "(string \<times> js_value) list"

record axios_response =
  data :: js_value

datatype js_error = Error (error_response: "axios_response option") (error_message: js_value)

type_synonym http_client = "request \<Rightarrow> js_error + axios_response"

text \<open>\<^verbatim>\<open>error.response?.data || error.message\<close>\<close>

definition error_detail :: "js_error \<Rightarrow> js_value" where
  "error_detail error =
     (let d = (case error_response error of None \<Rightarrow> JUndefined | Some r \<Rightarrow> data r)
      in if truthy d then d else error_message error)"

text \<open>
  What one call of an action shows: the request it issued, the store at the moment the
  request was issued, the settled promise (\<open>Inl\<close> a rejection, \<open>Inr\<close> the value the
  caller receives), the store once the promise has settled, and the arguments of every
  \<^verbatim>\<open>console.error\<close> call.
\<close>

record run =
  issued :: request
  this_at_request :: state
  returned :: "js_error + js_value"
  this_final :: state
  console :: "js_value list list"

subsection \<open>\<^verbatim>\<open>select\<close>, lines 28--84\<close>

text \<open>The local variables of \<^verbatim>\<open>select\<close> together with the store it writes.\<close>

record select_locals =
  path :: string
  pathQuery :: "string list"
  this :: state

text \<open>
  Lines 36--68, everything before the \<^verbatim>\<open>try\<close>: the loading flag, the path, and one
  \<^verbatim>\<open>if\<close> per filter, each pushing a clause and recording the raw value.
\<close>

definition select_build ::
  "nat option \<Rightarrow> nat option \<Rightarrow> string option \<Rightarrow> string option \<Rightarrow> string option \<Rightarrow>
   string option \<Rightarrow> state \<Rightarrow> select_locals" where
  "select_build page0 pageSize0 name0 set0 rarity0 type0 this0 =
     (let page = param_default 0 page0;
          pageSize = param_default 0 pageSize0;
          name = param_default [] name0;
          set' = param_default [] set0;
          rarity = param_default [] rarity0;
          type = param_default [] type0;
          l0 = \<lparr>path = ''/cards?page='' @ toString page @ ''&pageSize='' @ toString pageSize @ ''&'',
                pathQuery = [],
                this = this0\<lparr>this_isLoading := True\<rparr>\<rparr>;
          l1 = (if name \<noteq> []
                then l0\<lparr>pathQuery := pathQuery l0 @ [''name:'' @ replaceAll '' '' ''*'' name @ ''*''],
                        this := (this l0)\<lparr>this_name := name\<rparr>\<rparr>
                else l0);
          l2 = (if set' \<noteq> []
                then l1\<lparr>pathQuery := pathQuery l1 @ [''set.name:'' @ replaceAll '' '' ''*'' set' @ ''*''],
                        this := (this l1)\<lparr>this_set := set'\<rparr>\<rparr>
                else l1);
          l3 = (if rarity \<noteq> []
                then l2\<lparr>pathQuery := pathQuery l2 @ [''rarity:'' @ replaceAll '' '' ''*'' rarity @ ''*''],
                        this := (this l2)\<lparr>this_rarity := rarity\<rparr>\<rparr>
                else l2);
          l4 = (if type \<noteq> []
                then l3\<lparr>pathQuery := pathQuery l3 @ [''types:'' @ replaceAll '' '' ''*'' type],
                        this := (this l3)\<lparr>this_type := type\<rparr>\<rparr>
                else l3)
      in if length (pathQuery l4) > 0
         then l4\<lparr>path := path l4 @ ''q='' @ join '' AND '' (pathQuery l4)\<rparr>
         else l4)"

text \<open>Lines 70--83: the request, and the \<^verbatim>\<open>try/catch/finally\<close> around it.\<close>

definition select ::
  "runtime_config \<Rightarrow> http_client \<Rightarrow> nat option \<Rightarrow> nat option \<Rightarrow> string option \<Rightarrow>
   string option \<Rightarrow> string option \<Rightarrow> string option \<Rightarrow> state \<Rightarrow> run" where
  "select config http page0 pageSize0 name0 set0 rarity0 type0 this0 =
     (let l = select_build page0 pageSize0 name0 set0 rarity0 type0 this0;
          req = \<lparr>url = path l, headers = [(''X-Api-Key'', apiKey config)]\<rparr>;
          (completion, out) =
            (case http req of
               Inr response \<Rightarrow> (Inr (data response), [])
             | Inl error \<Rightarrow>
                 (Inr (JObj [(''data'', JArr []), (''totalCount'', JNum 0), (''count'', JNum 0)]),
                  [[JStr ''API Error:'', error_detail error]]))
      in \<lparr>issued = req, this_at_request = this l, returned = completion,
          this_final = (this l)\<lparr>this_isLoading := False\<rparr>, console = out\<rparr>)"

subsection \<open>\<^verbatim>\<open>getSet\<close>, \<^verbatim>\<open>getRarity\<close>, \<^verbatim>\<open>getType\<close>, lines 86--141\<close>

definition getSet :: "runtime_config \<Rightarrow> http_client \<Rightarrow> state \<Rightarrow> run" where
  "getSet config http this0 =
     (let this1 = this0\<lparr>this_isLoading := True\<rparr>;
          req = \<lparr>url = ''/sets'', headers = [(''X-Api-Key'', apiKey config)]\<rparr>;
          (completion, out) =
            (case http req of
               Inr response \<Rightarrow> (Inr (data response), [])
             | Inl error \<Rightarrow>
                 (Inr (JObj [(''data'', JArr [])]),
                  [[JStr ''getSet Error:'', error_detail error]]))
      in \<lparr>issued = req, this_at_request = this1, returned = completion,
          this_final = this1\<lparr>this_isLoading := False\<rparr>, console = out\<rparr>)"

definition getRarity :: "runtime_config \<Rightarrow> http_client \<Rightarrow> state \<Rightarrow> run" where
  "getRarity config http this0 =
     (let this1 = this0\<lparr>this_isLoading := True\<rparr>;
          req = \<lparr>url = ''/rarities'', headers = [(''X-Api-Key'', apiKey config)]\<rparr>;
          (completion, out) =
            (case http req of
               Inr response \<Rightarrow> (Inr (data response), [])
             | Inl error \<Rightarrow>
                 (Inr (JObj [(''data'', JArr [])]),
                  [[JStr ''getRarity Error:'', error_detail error]]))
      in \<lparr>issued = req, this_at_request = this1, returned = completion,
          this_final = this1\<lparr>this_isLoading := False\<rparr>, console = out\<rparr>)"

definition getType :: "runtime_config \<Rightarrow> http_client \<Rightarrow> state \<Rightarrow> run" where
  "getType config http this0 =
     (let this1 = this0\<lparr>this_isLoading := True\<rparr>;
          req = \<lparr>url = ''/types'', headers = [(''X-Api-Key'', apiKey config)]\<rparr>;
          (completion, out) =
            (case http req of
               Inr response \<Rightarrow> (Inr (data response), [])
             | Inl error \<Rightarrow>
                 (Inr (JObj [(''data'', JArr [])]),
                  [[JStr ''getType Error:'', error_detail error]]))
      in \<lparr>issued = req, this_at_request = this1, returned = completion,
          this_final = this1\<lparr>this_isLoading := False\<rparr>, console = out\<rparr>)"

subsection \<open>Calls in sequence\<close>

text \<open>
  A caller of the store (a page component) invokes the four actions one after the other
  on the one store, each call meeting its own answer from the network.
\<close>

datatype action =
    Select "nat option" "nat option" "string option" "string option" "string option"
      "string option"
  | GetSet
  | GetRarity
  | GetType

fun invoke :: "runtime_config \<Rightarrow> http_client \<Rightarrow> action \<Rightarrow> state \<Rightarrow> run" where
  "invoke config http (Select page0 pageSize0 name0 set0 rarity0 type0) s =
     select config http page0 pageSize0 name0 set0 rarity0 type0 s"
| "invoke config http GetSet s = getSet config http s"
| "invoke config http GetRarity s = getRarity config http s"
| "invoke config http GetType s = getType config http s"

fun invoke_all :: "runtime_config \<Rightarrow> (action \<times> http_client) list \<Rightarrow> state \<Rightarrow> state" where
  "invoke_all config [] s = s"
| "invoke_all config ((a, http) # rest) s =
     invoke_all config rest (this_final (invoke config http a s))"

subsection \<open>Example inputs\<close>

text \<open>
  Inputs for the concrete instances: a configuration, an HTTP client whose every
  request fails for want of a network, one that answers every request with an empty
  listing, and the store as a search for four filters leaves it.
\<close>

abbreviation example_config :: runtime_config where
  "example_config \<equiv> \<lparr>pokemonTcgApiKey = JStr ''key''\<rparr>"

abbreviation network_error :: js_error where
  "network_error \<equiv> Error None (JStr ''Network Error'')"

abbreviation network_down :: http_client where
  "network_down \<equiv> (\<lambda>r. Inl network_error)"

abbreviation empty_listing :: http_client where
  "empty_listing \<equiv> (\<lambda>r. Inr \<lparr>data = JObj [(''data'', JArr [])]\<rparr>)"

abbreviation searched_store :: state where
  "searched_store \<equiv>
     \<lparr>this_cards = [], this_isLoading = False, this_name = ''pika chu'',
      this_set = ''Base Set'', this_rarity = ''Rare Holo'', this_type = ''Fire''\<rparr>"

section \<open>Properties\<close>

subsection \<open>Library functions and the two halves of \<^verbatim>\<open>select\<close>\<close>

lemma toString_0: "toString 0 = ''0''"
  by (simp add: toString.simps digit_def)

lemma replaceAll_space: "replaceAll '' '' ''*'' s = spaces_to_wildcards s"
proof (induction s)
  case Nil
  show ?case by (simp add: replaceAll.simps [of _ _ "[]"] spaces_to_wildcards_def)
next
  case (Cons c cs)
  then show ?case
    by (simp add: replaceAll.simps [of _ _ "c # cs"] spaces_to_wildcards_def)
qed

lemma select_build_eq:
  "select_build page pageSize name set' rarity type s =
     \<lparr>path = ''/cards?page='' @ toString (param_default 0 page) @ ''&pageSize='' @
         toString (param_default 0 pageSize) @ ''&'' @
         (if param_default [] name = [] \<and> param_default [] set' = [] \<and>
             param_default [] rarity = [] \<and> param_default [] type = [] then []
          else ''q='' @ join '' AND ''
           ((if param_default [] name \<noteq> []
             then [''name:'' @ replaceAll '' '' ''*'' (param_default [] name) @ ''*''] else []) @
            (if param_default [] set' \<noteq> []
             then [''set.name:'' @ replaceAll '' '' ''*'' (param_default [] set') @ ''*''] else []) @
            (if param_default [] rarity \<noteq> []
             then [''rarity:'' @ replaceAll '' '' ''*'' (param_default [] rarity) @ ''*''] else []) @
            (if param_default [] type \<noteq> []
             then [''types:'' @ replaceAll '' '' ''*'' (param_default [] type)] else []))),
      pathQuery =
         (if param_default [] name \<noteq> []
          then [''name:'' @ replaceAll '' '' ''*'' (param_default [] name) @ ''*''] else []) @
         (if param_default [] set' \<noteq> []
          then [''set.name:'' @ replaceAll '' '' ''*'' (param_default [] set') @ ''*''] else []) @
         (if param_default [] rarity \<noteq> []
          then [''rarity:'' @ replaceAll '' '' ''*'' (param_default [] rarity) @ ''*''] else []) @
         (if param_default [] type \<noteq> []
          then [''types:'' @ replaceAll '' '' ''*'' (param_default [] type)] else []),
      this = s\<lparr>this_isLoading := True,
         this_name := (if param_default [] name \<noteq> [] then param_default [] name else this_name s),
         this_set := (if param_default [] set' \<noteq> [] then param_default [] set' else this_set s),
         this_rarity := (if param_default [] rarity \<noteq> [] then param_default [] rarity else this_rarity s),
         this_type := (if param_default [] type \<noteq> [] then param_default [] type else this_type s)\<rparr>\<rparr>"
  by (cases "param_default [] name = []"; cases "param_default [] set' = []";
      cases "param_default [] rarity = []"; cases "param_default [] type = []")
     (simp_all add: select_build_def Let_def)

lemma select_issued:
  "issued (select config http page pageSize name set' rarity type s) =
     \<lparr>url = path (select_build page pageSize name set' rarity type s),
      headers = [(''X-Api-Key'', apiKey config)]\<rparr>"
  by (simp add: select_def Let_def split: sum.splits prod.splits)

lemma select_this_final:
  "this_final (select config http page pageSize name set' rarity type s) =
     (this (select_build page pageSize name set' rarity type s))\<lparr>this_isLoading := False\<rparr>"
  by (simp add: select_def Let_def split: sum.splits prod.splits)

lemma select_this_at_request:
  "this_at_request (select config http page pageSize name set' rarity type s) =
     this (select_build page pageSize name set' rarity type s)"
  by (simp add: select_def Let_def split: sum.splits prod.splits)

lemma select_returned:
  "returned (select config http page pageSize name set' rarity type s) =
     (case http (issued (select config http page pageSize name set' rarity type s)) of
        Inr response \<Rightarrow> Inr (data response)
      | Inl error \<Rightarrow>
          Inr (JObj [(''data'', JArr []), (''totalCount'', JNum 0), (''count'', JNum 0)]))"
  by (simp add: select_def Let_def split: sum.splits prod.splits)

lemma select_build_pathQuery:
  "pathQuery (select_build page pageSize name set' rarity type s) =
     (if param_default [] name \<noteq> []
      then [''name:'' @ spaces_to_wildcards (param_default [] name) @ ''*''] else []) @
     (if param_default [] set' \<noteq> []
      then [''set.name:'' @ spaces_to_wildcards (param_default [] set') @ ''*''] else []) @
     (if param_default [] rarity \<noteq> []
      then [''rarity:'' @ spaces_to_wildcards (param_default [] rarity) @ ''*''] else []) @
     (if param_default [] type \<noteq> []
      then [''types:'' @ spaces_to_wildcards (param_default [] type)] else [])"
  by (simp add: select_build_eq replaceAll_space)

lemma select_build_path:
  "path (select_build page pageSize name set' rarity type s) =
     ''/cards?page='' @ toString (param_default 0 page) @ ''&pageSize='' @
     toString (param_default 0 pageSize) @ ''&'' @
     (if pathQuery (select_build page pageSize name set' rarity type s) = [] then []
      else ''q='' @ join '' AND ''
             (pathQuery (select_build page pageSize name set' rarity type s)))"
  by (simp add: select_build_eq)

lemma select_build_this:
  "this (select_build page pageSize name set' rarity type s) =
     s\<lparr>this_isLoading := True,
       this_name := (if param_default [] name \<noteq> [] then param_default [] name else this_name s),
       this_set := (if param_default [] set' \<noteq> [] then param_default [] set' else this_set s),
       this_rarity := (if param_default [] rarity \<noteq> [] then param_default [] rarity else this_rarity s),
       this_type := (if param_default [] type \<noteq> [] then param_default [] type else this_type s)\<rparr>"
  by (simp add: select_build_eq)

subsection \<open>Claims about the query that \<^verbatim>\<open>select\<close> builds\<close>

text \<open>
  Claim C1. Every specified, non-empty text filter of a call to \<^verbatim>\<open>select\<close> becomes a
  clause of the query in which every space of the value is replaced by \<open>*\<close>:
  \<open>name:\<close>, \<open>set.name:\<close> and \<open>rarity:\<close> followed by the transformed value and one
  appended \<open>*\<close>, and \<open>types:\<close> followed by the transformed value alone. The name
  \<open>pika chu\<close> alone gives exactly the clause \<open>name:pika*chu*\<close>.
\<close>

theorem select_filter_clauses:
  "(name = Some vn \<and> vn \<noteq> [] \<longrightarrow>
      ''name:'' @ spaces_to_wildcards vn @ ''*''
        \<in> set (pathQuery (select_build page pageSize name set' rarity type s))) \<and>
   (set' = Some vs \<and> vs \<noteq> [] \<longrightarrow>
      ''set.name:'' @ spaces_to_wildcards vs @ ''*''
        \<in> set (pathQuery (select_build page pageSize name set' rarity type s))) \<and>
   (rarity = Some vr \<and> vr \<noteq> [] \<longrightarrow>
      ''rarity:'' @ spaces_to_wildcards vr @ ''*''
        \<in> set (pathQuery (select_build page pageSize name set' rarity type s))) \<and>
   (type = Some vt \<and> vt \<noteq> [] \<longrightarrow>
      ''types:'' @ spaces_to_wildcards vt
        \<in> set (pathQuery (select_build page pageSize name set' rarity type s))) \<and>
   pathQuery (select_build page pageSize (Some ''pika chu'') None None None s) =
     [''name:pika*chu*''] \<and>
   url (issued (select config http None None (Some ''pika chu'') None None None s)) =
     ''/cards?page=0&pageSize=0&q=name:pika*chu*''"
  by (simp add: select_build_pathQuery select_issued select_build_path toString_0
      spaces_to_wildcards_def)

text \<open>Claim C1 at four concrete filters.\<close>

theorem select_filter_clauses_witness:
  "''name:pika*chu*'' \<in> set (pathQuery (select_build None None (Some ''pika chu'')
      (Some ''Base Set'') (Some ''Rare Holo'') (Some ''Fire'') state_init)) \<and>
   ''set.name:Base*Set*'' \<in> set (pathQuery (select_build None None (Some ''pika chu'')
      (Some ''Base Set'') (Some ''Rare Holo'') (Some ''Fire'') state_init)) \<and>
   ''rarity:Rare*Holo*'' \<in> set (pathQuery (select_build None None (Some ''pika chu'')
      (Some ''Base Set'') (Some ''Rare Holo'') (Some ''Fire'') state_init)) \<and>
   ''types:Fire'' \<in> set (pathQuery (select_build None None (Some ''pika chu'')
      (Some ''Base Set'') (Some ''Rare Holo'') (Some ''Fire'') state_init))"
  using select_filter_clauses [where name = "Some ''pika chu''" and vn = "''pika chu''"
      and set' = "Some ''Base Set''" and vs = "''Base Set''"
      and rarity = "Some ''Rare Holo''" and vr = "''Rare Holo''"
      and type = "Some ''Fire''" and vt = "''Fire''"
      and page = None and pageSize = None and s = state_init]
  by (simp add: spaces_to_wildcards_def)

text \<open>
  Claim C3. A filter that is omitted or is the empty string adds no clause: the query
  has as many clauses as there are non-empty filters, and no clause carries the field
  prefix of an empty filter. With no filter at all and the default \<open>page\<close> and
  \<open>pageSize\<close>, no \<open>q\<close> parameter is appended and the request path is exactly
  \<open>/cards?page=0&pageSize=0&\<close>.
\<close>

theorem empty_filter_no_clause:
  "length (pathQuery (select_build page pageSize name set' rarity type s)) =
     length (filter (\<lambda>v. param_default [] v \<noteq> []) [name, set', rarity, type]) \<and>
   (param_default [] name = [] \<longrightarrow>
      (\<forall>c \<in> set (pathQuery (select_build page pageSize name set' rarity type s)).
          \<not> prefix ''name:'' c)) \<and>
   (param_default [] set' = [] \<longrightarrow>
      (\<forall>c \<in> set (pathQuery (select_build page pageSize name set' rarity type s)).
          \<not> prefix ''set.name:'' c)) \<and>
   (param_default [] rarity = [] \<longrightarrow>
      (\<forall>c \<in> set (pathQuery (select_build page pageSize name set' rarity type s)).
          \<not> prefix ''rarity:'' c)) \<and>
   (param_default [] type = [] \<longrightarrow>
      (\<forall>c \<in> set (pathQuery (select_build page pageSize name set' rarity type s)).
          \<not> prefix ''types:'' c)) \<and>
   (param_default [] name = [] \<and> param_default [] set' = [] \<and>
    param_default [] rarity = [] \<and> param_default [] type = [] \<longrightarrow>
      pathQuery (select_build None None name set' rarity type s) = [] \<and>
      path (select_build None None name set' rarity type s) = ''/cards?page=0&pageSize=0&'' \<and>
      url (issued (select config http None None name set' rarity type s)) =
        ''/cards?page=0&pageSize=0&'')"
  by (simp add: select_build_pathQuery select_build_path select_issued toString_0)

text \<open>Claim C3 with no filter, and with only \<open>set\<close> and \<open>type\<close> given.\<close>

theorem empty_filter_no_clause_witness:
  "pathQuery (select_build None None None (Some []) None None state_init) = [] \<and>
   path (select_build None None None (Some []) None None state_init) =
     ''/cards?page=0&pageSize=0&'' \<and>
   url (issued (select example_config empty_listing
      None None None (Some []) None None state_init)) = ''/cards?page=0&pageSize=0&'' \<and>
   pathQuery (select_build None None None (Some ''Base Set'') (Some []) (Some ''Fire'')
      state_init) = [''set.name:Base*Set*'', ''types:Fire''] \<and>
   \<not> prefix ''name:'' ''set.name:Base*Set*'' \<and> \<not> prefix ''name:'' ''types:Fire'' \<and>
   \<not> prefix ''rarity:'' ''set.name:Base*Set*'' \<and> \<not> prefix ''rarity:'' ''types:Fire''"
  using empty_filter_no_clause [where name = None and set' = "Some []" and rarity = None
      and type = None and s = state_init and config = example_config
      and http = empty_listing]
    empty_filter_no_clause [where name = None and set' = "Some ''Base Set''"
      and rarity = "Some []" and type = "Some ''Fire''" and s = state_init
      and page = None and pageSize = None]
  by (simp add: select_build_pathQuery spaces_to_wildcards_def)

text \<open>
  Claim C4. With two or more non-empty filters the clauses stand in the order name,
  set, rarity, type (only those present), and the path ends in one \<open>q=\<close> parameter made
  of the clauses joined with \<open>'' AND ''\<close>.
\<close>

theorem clauses_ordered_and_joined:
  "2 \<le> length (filter (\<lambda>v. param_default [] v \<noteq> []) [name, set', rarity, type]) \<Longrightarrow>
   pathQuery (select_build page pageSize name set' rarity type s) =
     (if param_default [] name \<noteq> []
      then [''name:'' @ spaces_to_wildcards (param_default [] name) @ ''*''] else []) @
     (if param_default [] set' \<noteq> []
      then [''set.name:'' @ spaces_to_wildcards (param_default [] set') @ ''*''] else []) @
     (if param_default [] rarity \<noteq> []
      then [''rarity:'' @ spaces_to_wildcards (param_default [] rarity) @ ''*''] else []) @
     (if param_default [] type \<noteq> []
      then [''types:'' @ spaces_to_wildcards (param_default [] type)] else []) \<and>
   url (issued (select config http page pageSize name set' rarity type s)) =
     ''/cards?page='' @ toString (param_default 0 page) @ ''&pageSize='' @
     toString (param_default 0 pageSize) @ ''&q='' @
     join '' AND '' (pathQuery (select_build page pageSize name set' rarity type s))"
proof -
  assume two: "2 \<le> length (filter (\<lambda>v. param_default [] v \<noteq> []) [name, set', rarity, type])"
  let ?q = "pathQuery (select_build page pageSize name set' rarity type s)"
  have "length ?q = length (filter (\<lambda>v. param_default [] v \<noteq> []) [name, set', rarity, type])"
    by (simp add: select_build_pathQuery)
  with two have "?q \<noteq> []" by auto
  then have "url (issued (select config http page pageSize name set' rarity type s)) =
     ''/cards?page='' @ toString (param_default 0 page) @ ''&pageSize='' @
     toString (param_default 0 pageSize) @ ''&q='' @ join '' AND '' ?q"
    by (simp add: select_issued select_build_path)
  then show ?thesis
    by (simp add: select_build_pathQuery)
qed

text \<open>Claim C4 at page 2 of 20 with three filters.\<close>

theorem clauses_ordered_and_joined_witness:
  "pathQuery (select_build (Some 2) (Some 20) None (Some ''Base Set'') (Some ''Rare Holo'')
      (Some ''Fire'') state_init) =
     [''set.name:Base*Set*'', ''rarity:Rare*Holo*'', ''types:Fire''] \<and>
   url (issued (select example_config empty_listing
      (Some 2) (Some 20) None (Some ''Base Set'') (Some ''Rare Holo'') (Some ''Fire'')
      state_init)) =
     ''/cards?page=2&pageSize=20&q=set.name:Base*Set* AND rarity:Rare*Holo* AND types:Fire''"
proof -
  have two: "2 \<le> length (filter (\<lambda>v. param_default [] v \<noteq> [])
      [None, Some ''Base Set'', Some ''Rare Holo'', Some ''Fire''])"
    by simp
  show ?thesis
    using clauses_ordered_and_joined [OF two, where page = "Some 2" and pageSize = "Some 20"
      and s = state_init and config = example_config
      and http = empty_listing]
    by (simp add: spaces_to_wildcards_def toString.simps digit_def)
qed

subsection \<open>Claims about the store\<close>

text \<open>
  Claim C6. Every specified, non-empty filter's raw value is stored in the field of
  the store with the same name, already when the request is issued and still once the
  call has settled, whatever the HTTP client answers.
\<close>

theorem filter_values_recorded:
  "(name = Some vn \<and> vn \<noteq> [] \<longrightarrow>
      this_name (this_at_request (select config http page pageSize name set' rarity type s)) = vn \<and>
      this_name (this_final (select config http page pageSize name set' rarity type s)) = vn) \<and>
   (set' = Some vs \<and> vs \<noteq> [] \<longrightarrow>
      this_set (this_at_request (select config http page pageSize name set' rarity type s)) = vs \<and>
      this_set (this_final (select config http page pageSize name set' rarity type s)) = vs) \<and>
   (rarity = Some vr \<and> vr \<noteq> [] \<longrightarrow>
      this_rarity (this_at_request (select config http page pageSize name set' rarity type s)) = vr \<and>
      this_rarity (this_final (select config http page pageSize name set' rarity type s)) = vr) \<and>
   (type = Some vt \<and> vt \<noteq> [] \<longrightarrow>
      this_type (this_at_request (select config http page pageSize name set' rarity type s)) = vt \<and>
      this_type (this_final (select config http page pageSize name set' rarity type s)) = vt)"
  by (simp add: select_this_at_request select_this_final select_build_this)

text \<open>Claim C6 at four filters and a failing request.\<close>

theorem filter_values_recorded_witness:
  "this_name (this_final (select example_config network_down
      None None (Some ''pika chu'') (Some ''Base Set'') (Some ''Rare Holo'') (Some ''Fire'')
      state_init)) = ''pika chu'' \<and>
   this_set (this_final (select example_config network_down
      None None (Some ''pika chu'') (Some ''Base Set'') (Some ''Rare Holo'') (Some ''Fire'')
      state_init)) = ''Base Set'' \<and>
   this_rarity (this_final (select example_config network_down
      None None (Some ''pika chu'') (Some ''Base Set'') (Some ''Rare Holo'') (Some ''Fire'')
      state_init)) = ''Rare Holo'' \<and>
   this_type (this_final (select example_config network_down
      None None (Some ''pika chu'') (Some ''Base Set'') (Some ''Rare Holo'') (Some ''Fire'')
      state_init)) = ''Fire''"
  using filter_values_recorded [where name = "Some ''pika chu''" and vn = "''pika chu''"
      and set' = "Some ''Base Set''" and vs = "''Base Set''"
      and rarity = "Some ''Rare Holo''" and vr = "''Rare Holo''"
      and type = "Some ''Fire''" and vt = "''Fire''" and page = None and pageSize = None
      and s = state_init and config = example_config and http = network_down]
  by simp

text \<open>
  Claim C8. A filter that is omitted or empty leaves its field of the store as a
  previous call left it.
\<close>

theorem empty_filter_keeps_field:
  "(param_default [] name = [] \<longrightarrow>
      this_name (this_final (select config http page pageSize name set' rarity type s)) =
        this_name s) \<and>
   (param_default [] set' = [] \<longrightarrow>
      this_set (this_final (select config http page pageSize name set' rarity type s)) =
        this_set s) \<and>
   (param_default [] rarity = [] \<longrightarrow>
      this_rarity (this_final (select config http page pageSize name set' rarity type s)) =
        this_rarity s) \<and>
   (param_default [] type = [] \<longrightarrow>
      this_type (this_final (select config http page pageSize name set' rarity type s)) =
        this_type s)"
  by (simp add: select_this_final select_build_this)

text \<open>Claim C8 on a store that holds the filters of an earlier search.\<close>

theorem empty_filter_keeps_field_witness:
  "this_name (this_final (select example_config empty_listing
      None None None (Some []) None (Some []) searched_store)) = ''pika chu'' \<and>
   this_set (this_final (select example_config empty_listing
      None None None (Some []) None (Some []) searched_store)) = ''Base Set'' \<and>
   this_rarity (this_final (select example_config empty_listing
      None None None (Some []) None (Some []) searched_store)) = ''Rare Holo'' \<and>
   this_type (this_final (select example_config empty_listing
      None None None (Some []) None (Some []) searched_store)) = ''Fire''"
  using empty_filter_keeps_field [where config = example_config and http = empty_listing
      and page = None and pageSize = None and name = None and set' = "Some []"
      and rarity = None and type = "Some []"
      and s = searched_store]
  by simp

text \<open>
  Claim C5. Each of the four actions has set \<open>isLoading\<close> when it issues its request
  and has cleared it when its promise has settled, whether the request succeeded or
  failed.
\<close>

theorem isLoading_true_then_false:
  "this_isLoading (this_at_request (select config http page pageSize name set' rarity type s)) \<and>
   \<not> this_isLoading (this_final (select config http page pageSize name set' rarity type s)) \<and>
   this_isLoading (this_at_request (getSet config http s)) \<and>
   \<not> this_isLoading (this_final (getSet config http s)) \<and>
   this_isLoading (this_at_request (getRarity config http s)) \<and>
   \<not> this_isLoading (this_final (getRarity config http s)) \<and>
   this_isLoading (this_at_request (getType config http s)) \<and>
   \<not> this_isLoading (this_final (getType config http s))"
proof -
  have "this_isLoading (this_at_request (select config http page pageSize name set' rarity type s))"
    and "\<not> this_isLoading (this_final (select config http page pageSize name set' rarity type s))"
    by (simp_all add: select_this_at_request select_this_final select_build_this)
  moreover have "this_isLoading (this_at_request (getSet config http s))"
    and "\<not> this_isLoading (this_final (getSet config http s))"
    by (simp_all add: getSet_def Let_def split: sum.splits)
  moreover have "this_isLoading (this_at_request (getRarity config http s))"
    and "\<not> this_isLoading (this_final (getRarity config http s))"
    by (simp_all add: getRarity_def Let_def split: sum.splits)
  moreover have "this_isLoading (this_at_request (getType config http s))"
    and "\<not> this_isLoading (this_final (getType config http s))"
    by (simp_all add: getType_def Let_def split: sum.splits)
  ultimately show ?thesis by blast
qed

text \<open>Claim C5 at a failing search and a successful listing.\<close>

theorem isLoading_true_then_false_witness:
  "this_isLoading (this_at_request (select example_config network_down
      None None (Some ''pika chu'') None None None state_init)) \<and>
   \<not> this_isLoading (this_final (select example_config network_down
      None None (Some ''pika chu'') None None None state_init)) \<and>
   this_isLoading (this_at_request (getSet example_config empty_listing state_init)) \<and>
   \<not> this_isLoading (this_final (getSet example_config empty_listing state_init))"
  using isLoading_true_then_false [where config = example_config and http = network_down
      and page = None and pageSize = None and name = "Some ''pika chu''" and set' = None
      and rarity = None and type = None and s = state_init]
    isLoading_true_then_false [where config = example_config and http = empty_listing
      and s = state_init]
  by simp

lemma invoke_cards: "this_cards (this_final (invoke config http a s)) = this_cards s"
proof (cases a)
  case (Select page pageSize name set' rarity type)
  then show ?thesis by (simp add: select_this_final select_build_this)
next
  case GetSet
  then show ?thesis by (simp add: getSet_def Let_def split: sum.splits)
next
  case GetRarity
  then show ?thesis by (simp add: getRarity_def Let_def split: sum.splits)
next
  case GetType
  then show ?thesis by (simp add: getType_def Let_def split: sum.splits)
qed

lemma invoke_all_cards: "this_cards (invoke_all config calls s) = this_cards s"
  by (induction calls arbitrary: s) (auto simp: invoke_cards)

lemma invoke_final_independent:
  "this_final (invoke config http a s) = this_final (invoke config' http' a s)"
proof (cases a)
  case (Select page pageSize name set' rarity type)
  then show ?thesis by (simp add: select_this_final)
next
  case GetSet
  then show ?thesis by (simp add: getSet_def Let_def split: sum.splits)
next
  case GetRarity
  then show ?thesis by (simp add: getRarity_def Let_def split: sum.splits)
next
  case GetType
  then show ?thesis by (simp add: getType_def Let_def split: sum.splits)
qed

text \<open>
  Claim C9. No action writes the field \<open>cards\<close>: each leaves it as it found it, so
  through any sequence of calls it stays the empty array of the initial state; and the
  store after a call does not depend on what the HTTP client answered, the answer only
  being returned.
\<close>

theorem cards_never_written:
  "this_cards (this_final (select config http page pageSize name set' rarity type s)) =
     this_cards s \<and>
   this_cards (this_final (getSet config http s)) = this_cards s \<and>
   this_cards (this_final (getRarity config http s)) = this_cards s \<and>
   this_cards (this_final (getType config http s)) = this_cards s \<and>
   this_cards (invoke_all config calls state_init) = [] \<and>
   this_final (invoke config http a s) = this_final (invoke config http' a s)"
  using invoke_cards [of config http "Select page pageSize name set' rarity type" s]
    invoke_cards [of config http GetSet s] invoke_cards [of config http GetRarity s]
    invoke_cards [of config http GetType s] invoke_all_cards [of config calls state_init]
    invoke_final_independent [of config http a s config http']
  by (simp add: state_init_def)

text \<open>Claim C9 over one call of each action.\<close>

theorem cards_never_written_witness:
  "this_cards (invoke_all example_config
      [(Select None None (Some ''pika chu'') None None None, empty_listing),
       (GetSet, network_down), (GetRarity, empty_listing), (GetType, empty_listing)]
      state_init) = [] \<and>
   this_final (invoke example_config empty_listing GetSet state_init) =
     this_final (invoke example_config network_down GetSet state_init)"
  using cards_never_written [where config = example_config
      and calls = "[(Select None None (Some ''pika chu'') None None None, empty_listing),
       (GetSet, network_down), (GetRarity, empty_listing), (GetType, empty_listing)]"
      and http = empty_listing and http' = network_down and a = GetSet and s = state_init]
  by simp

subsection \<open>Claims about the request and its outcome\<close>

text \<open>
  Claim C2. When the HTTP call throws, \<^verbatim>\<open>select\<close> resolves to exactly
  \<open>{data: [], totalCount: 0, count: 0}\<close> and \<^verbatim>\<open>getSet\<close>, \<^verbatim>\<open>getRarity\<close> and \<^verbatim>\<open>getType\<close>
  resolve to exactly \<open>{data: []}\<close>; the promise of none of the four is ever rejected.
\<close>

theorem failure_returns_fallback:
  "(http (issued (select config http page pageSize name set' rarity type s)) = Inl e \<longrightarrow>
      returned (select config http page pageSize name set' rarity type s) =
        Inr (JObj [(''data'', JArr []), (''totalCount'', JNum 0), (''count'', JNum 0)])) \<and>
   (http (issued (getSet config http s)) = Inl e \<longrightarrow>
      returned (getSet config http s) = Inr (JObj [(''data'', JArr [])])) \<and>
   (http (issued (getRarity config http s)) = Inl e \<longrightarrow>
      returned (getRarity config http s) = Inr (JObj [(''data'', JArr [])])) \<and>
   (http (issued (getType config http s)) = Inl e \<longrightarrow>
      returned (getType config http s) = Inr (JObj [(''data'', JArr [])])) \<and>
   \<not> isl (returned (select config http page pageSize name set' rarity type s)) \<and>
   \<not> isl (returned (getSet config http s)) \<and>
   \<not> isl (returned (getRarity config http s)) \<and>
   \<not> isl (returned (getType config http s))"
proof -
  have sel: "http (issued (select config http page pageSize name set' rarity type s)) = Inl e \<longrightarrow>
      returned (select config http page pageSize name set' rarity type s) =
        Inr (JObj [(''data'', JArr []), (''totalCount'', JNum 0), (''count'', JNum 0)])"
    by (simp add: select_returned)
  have sel': "\<not> isl (returned (select config http page pageSize name set' rarity type s))"
    by (simp add: select_returned split: sum.splits)
  have gs: "(http (issued (getSet config http s)) = Inl e \<longrightarrow>
      returned (getSet config http s) = Inr (JObj [(''data'', JArr [])])) \<and>
      \<not> isl (returned (getSet config http s))"
    by (simp add: getSet_def Let_def split: sum.splits)
  have gr: "(http (issued (getRarity config http s)) = Inl e \<longrightarrow>
      returned (getRarity config http s) = Inr (JObj [(''data'', JArr [])])) \<and>
      \<not> isl (returned (getRarity config http s))"
    by (simp add: getRarity_def Let_def split: sum.splits)
  have gt: "(http (issued (getType config http s)) = Inl e \<longrightarrow>
      returned (getType config http s) = Inr (JObj [(''data'', JArr [])])) \<and>
      \<not> isl (returned (getType config http s))"
    by (simp add: getType_def Let_def split: sum.splits)
  from sel sel' gs gr gt show ?thesis by blast
qed

text \<open>Claim C2 at a network error.\<close>

theorem failure_returns_fallback_witness:
  "returned (select example_config network_down
      (Some 2) (Some 20) None None (Some ''Rare Holo'') None state_init) =
     Inr (JObj [(''data'', JArr []), (''totalCount'', JNum 0), (''count'', JNum 0)]) \<and>
   returned (getSet example_config network_down state_init) =
     Inr (JObj [(''data'', JArr [])]) \<and>
   returned (getRarity example_config network_down state_init) =
     Inr (JObj [(''data'', JArr [])]) \<and>
   returned (getType example_config network_down state_init) =
     Inr (JObj [(''data'', JArr [])])"
  using failure_returns_fallback [where http = network_down
      and e = network_error and config = example_config
      and s = state_init and page = "Some 2" and pageSize = "Some 20" and name = None
      and set' = None and rarity = "Some ''Rare Holo''" and type = None]
  by simp

text \<open>
  Claim C7. The request of each of the four actions carries the configured API key in
  the header \<open>X-Api-Key\<close>.
\<close>

theorem requests_carry_api_key:
  "headers (issued (select config http page pageSize name set' rarity type s)) =
     [(''X-Api-Key'', pokemonTcgApiKey config)] \<and>
   headers (issued (getSet config http s)) = [(''X-Api-Key'', pokemonTcgApiKey config)] \<and>
   headers (issued (getRarity config http s)) = [(''X-Api-Key'', pokemonTcgApiKey config)] \<and>
   headers (issued (getType config http s)) = [(''X-Api-Key'', pokemonTcgApiKey config)]"
proof -
  have "headers (issued (select config http page pageSize name set' rarity type s)) =
     [(''X-Api-Key'', pokemonTcgApiKey config)]"
    by (simp add: select_issued apiKey_def)
  moreover have "headers (issued (getSet config http s)) = [(''X-Api-Key'', pokemonTcgApiKey config)]"
    by (simp add: getSet_def Let_def apiKey_def split: sum.splits)
  moreover have "headers (issued (getRarity config http s)) = [(''X-Api-Key'', pokemonTcgApiKey config)]"
    by (simp add: getRarity_def Let_def apiKey_def split: sum.splits)
  moreover have "headers (issued (getType config http s)) = [(''X-Api-Key'', pokemonTcgApiKey config)]"
    by (simp add: getType_def Let_def apiKey_def split: sum.splits)
  ultimately show ?thesis by blast
qed

text \<open>Claim C7 at the key \<open>key\<close>.\<close>

theorem requests_carry_api_key_witness:
  "headers (issued (select example_config empty_listing
      None None None None None None state_init)) = [(''X-Api-Key'', JStr ''key'')] \<and>
   headers (issued (getType example_config network_down state_init)) =
     [(''X-Api-Key'', JStr ''key'')]"
  using requests_carry_api_key [where config = example_config and http = empty_listing
      and page = None and pageSize = None and name = None and set' = None
      and rarity = None and type = None and s = state_init]
    requests_carry_api_key [where config = example_config and http = network_down
      and s = state_init]
  by simp

text \<open>
  Claim C10. The request path of \<^verbatim>\<open>select\<close> depends on its six arguments only: not
  on the store it starts from, nor on the configuration or the network.
\<close>

theorem select_path_deterministic:
  "path (select_build page pageSize name set' rarity type s) =
     path (select_build page pageSize name set' rarity type s') \<and>
   url (issued (select config http page pageSize name set' rarity type s)) =
     url (issued (select config' http' page pageSize name set' rarity type s'))"
  by (simp add: select_issued select_build_eq)

text \<open>Claim C10 at the initial store and a store left by an earlier search.\<close>

theorem select_path_deterministic_witness:
  "path (select_build (Some 2) (Some 20) None None (Some ''Rare Holo'') None state_init) =
     path (select_build (Some 2) (Some 20) None None (Some ''Rare Holo'') None
       searched_store)"
  using select_path_deterministic [where page = "Some 2" and pageSize = "Some 20"
      and name = None and set' = None and rarity = "Some ''Rare Holo''" and type = None
      and s = state_init
      and s' = searched_store]
  by simp

end
